theory Spec2Isabelle
  imports Main "HOL-Library.Sublist"
begin

section \<open>The token server (src/server/token_server.py)\<close>

text \<open>
  The module is a FastAPI application with two POST routes, \<open>/token\<close> (\<open>get_token\<close>) and
  \<open>/rooms\<close> (\<open>create_room\<close>), both guarded by \<open>_require_config\<close> and both provisioning
  rooms through \<open>_ensure_room\<close>. Strings are byte strings. What the handlers do beyond
  returning a value is made explicit:
  \<^item> a raised exception is the \<open>Inl\<close> branch of the result;
  \<^item> the remote LiveKit service is a parameter: a function from the room name and the
    service's state to the outcome of the call and the new state;
  \<^item> the signing library's \<open>to_jwt\<close> is a parameter, which may raise;
  \<^item> every remote create-room call and every call of \<open>to_jwt\<close> is appended to a trace,
    so that "no network call" and "before the credential is signed" can be stated. The
    event \<open>CreateRoomCall\<close> is recorded when the \<open>try\<close> of \<open>_ensure_room\<close> is entered: a
    trace without it means that nothing was sent.
\<close>

subsection \<open>Configuration\<close>

type_synonym environ = "string \<rightharpoonup> string"

text \<open>\<open>os.getenv(key, default)\<close>: the default is returned only when the variable is absent.\<close>

definition getenv :: "environ \<Rightarrow> string \<Rightarrow> string \<Rightarrow> string" where
  "getenv env key dflt = (case env key of None \<Rightarrow> dflt | Some v \<Rightarrow> v)"

record config =
  LIVEKIT_URL :: string
  LIVEKIT_API_KEY :: string
  LIVEKIT_API_SECRET :: string

text \<open>Lines 18 to 20: the three module globals, read once from the environment.\<close>

definition load_config :: "environ \<Rightarrow> config" where
  "load_config env =
     \<lparr>LIVEKIT_URL = getenv env ''LIVEKIT_URL'' ''ws://localhost:7880'',
      LIVEKIT_API_KEY = getenv env ''LIVEKIT_API_KEY'' ''devkey'',
      LIVEKIT_API_SECRET = getenv env ''LIVEKIT_API_SECRET'' ''secret''\<rparr>"

subsection \<open>Requests, responses, errors\<close>

text \<open>
  \<open>TokenRequest\<close> and \<open>RoomCreateRequest\<close> after validation. The fields of the other
  records carry a prefix, since several of the source's classes and dictionaries share
  the names \<open>room\<close>, \<open>identity\<close> and \<open>name\<close>.
\<close>

record TokenRequest =
  room :: string
  identity :: string
  name :: "string option"
  auto_create_room :: bool

record RoomCreateRequest =
  rc_name :: string


record VideoGrants =
  room_join :: bool
  vg_room :: string
  can_publish :: bool
  can_subscribe :: bool
  can_publish_data :: bool

record AccessToken =
  api_key :: string
  api_secret :: string
  at_identity :: string
  at_name :: string
  at_grants :: VideoGrants

record token_response =
  resp_token :: string
  resp_url :: string
  resp_identity :: string
  resp_room :: string

record room_response =
  rr_room :: string
  rr_created :: bool

text \<open>
  \<open>HTTPException status detail\<close> is the exception the module raises itself;
  \<open>RequestValidationError missing\<close> is the framework's rejection of a body that lacks
  required fields; \<open>UnhandledException text\<close> is an exception of the signing library
  that leaves the handler uncaught.
\<close>

datatype error =
  HTTPException nat string
  | RequestValidationError "string list"
  | UnhandledException string

subsection \<open>Effects\<close>

datatype remote_result = Created | Raised string

type_synonym 'p remote = "string \<Rightarrow> 'p \<Rightarrow> remote_result \<times> 'p"

datatype event = CreateRoomCall string | ToJwtCall AccessToken

record 'p world =
  platform :: 'p
  trace :: "event list"

text \<open>
  Lines 61 and 62, the body of the \<open>try\<close>: one remote create-room call. \<open>Raised text\<close> is
  an exception caught by \<open>except Exception\<close>, with \<open>text\<close> its \<open>str\<close>. What that clause
  does not catch (a cancellation of the request) is not modelled.
\<close>

definition lk_create_room :: "'p remote \<Rightarrow> string \<Rightarrow> 'p world \<Rightarrow> remote_result \<times> 'p world" where
  "lk_create_room remote room_name s =
     (case remote room_name (platform s) of
        (r, p') \<Rightarrow> (r, \<lparr>platform = p', trace = trace s @ [CreateRoomCall room_name]\<rparr>))"

subsection \<open>String helpers\<close>

text \<open>
  \<open>str.lower\<close> on a byte string: only the letters A to Z change. The patterns searched
  afterwards are ASCII, so bytes above 127 play no part.
\<close>

definition lower_char :: "char \<Rightarrow> char" where
  "lower_char c =
     (let n = (of_char c :: nat) in if 65 \<le> n \<and> n \<le> 90 then char_of (n + 32) else c)"

definition lower :: "string \<Rightarrow> string" where
  "lower s = map lower_char s"

subsection \<open>The handlers\<close>

definition config_detail :: string where
  "config_detail = ''LIVEKIT_URL, LIVEKIT_API_KEY, and LIVEKIT_API_SECRET must be set''"

text \<open>\<open>_require_config\<close>: a string is falsy exactly when it is empty.\<close>

definition require_config :: "config \<Rightarrow> error + unit" where
  "require_config cfg =
     (if \<not> (LIVEKIT_URL cfg \<noteq> [] \<and> LIVEKIT_API_KEY cfg \<noteq> [] \<and> LIVEKIT_API_SECRET cfg \<noteq> [])
      then Inl (HTTPException 500 config_detail)
      else Inr ())"

text \<open>\<open>_ensure_room\<close>.\<close>

definition ensure_room :: "'p remote \<Rightarrow> string \<Rightarrow> 'p world \<Rightarrow> (error + unit) \<times> 'p world" where
  "ensure_room remote room_name s =
     (case lk_create_room remote room_name s of
        (Created, s') \<Rightarrow> (Inr (), s')
      | (Raised exc, s') \<Rightarrow>
          (let msg = lower exc in
           if sublist ''already exists'' msg \<or> sublist ''exists'' msg
           then (Inr (), s')
           else (Inl (HTTPException 500 (''Failed to create room: '' @ exc)), s')))"

text \<open>\<open>body.name or body.identity\<close>: \<open>None\<close> and the empty string are both falsy.\<close>

definition name_or_identity :: "TokenRequest \<Rightarrow> string" where
  "name_or_identity body =
     (case name body of
        None \<Rightarrow> identity body
      | Some n \<Rightarrow> if n = [] then identity body else n)"

text \<open>\<open>get_token\<close>, the handler of POST \<open>/token\<close>.\<close>

definition get_token ::
  "(AccessToken \<Rightarrow> string + string) \<Rightarrow> config \<Rightarrow> 'p remote \<Rightarrow> TokenRequest \<Rightarrow> 'p world
     \<Rightarrow> (error + token_response) \<times> 'p world" where
  "get_token to_jwt cfg remote body s =
     (case require_config cfg of
        Inl e \<Rightarrow> (Inl e, s)
      | Inr _ \<Rightarrow>
          (case (if auto_create_room body then ensure_room remote (room body) s
                 else (Inr (), s)) of
             (Inl e, s1) \<Rightarrow> (Inl e, s1)
           | (Inr _, s1) \<Rightarrow>
               (let grants = \<lparr>room_join = True, vg_room = room body, can_publish = True,
                              can_subscribe = True, can_publish_data = True\<rparr>;
                    token = \<lparr>api_key = LIVEKIT_API_KEY cfg,
                             api_secret = LIVEKIT_API_SECRET cfg,
                             at_identity = identity body,
                             at_name = name_or_identity body,
                             at_grants = grants\<rparr>;
                    s2 = s1\<lparr>trace := trace s1 @ [ToJwtCall token]\<rparr>
                in case to_jwt token of
                     Inl exc \<Rightarrow> (Inl (UnhandledException exc), s2)
                   | Inr jwt \<Rightarrow>
                       (Inr \<lparr>resp_token = jwt, resp_url = LIVEKIT_URL cfg,
                             resp_identity = identity body, resp_room = room body\<rparr>, s2))))"

text \<open>\<open>create_room\<close>, the handler of POST \<open>/rooms\<close>.\<close>

definition create_room ::
  "config \<Rightarrow> 'p remote \<Rightarrow> RoomCreateRequest \<Rightarrow> 'p world \<Rightarrow> (error + room_response) \<times> 'p world" where
  "create_room cfg remote body s =
     (case require_config cfg of
        Inl e \<Rightarrow> (Inl e, s)
      | Inr _ \<Rightarrow>
          (case ensure_room remote (rc_name body) s of
             (Inl e, s1) \<Rightarrow> (Inl e, s1)
           | (Inr _, s1) \<Rightarrow> (Inr \<lparr>rr_room = rc_name body, rr_created = True\<rparr>, s1)))"

text \<open>
  The test of lines 64 and 65 on its own, for use in the statements below: the message
  is lower-cased first, then searched for the two patterns.
\<close>

definition is_exists_error :: "string \<Rightarrow> bool" where
  "is_exists_error exc =
     (let msg = lower exc in sublist ''already exists'' msg \<or> sublist ''exists'' msg)"

subsection \<open>Request validation\<close>



subsection \<open>Sample collaborators\<close>

text \<open>
  Concrete remote services and a concrete signer, on which the theorems below are
  instantiated: a service on which every create call succeeds, one on which every call
  raises a given message, a registry of room names that refuses a duplicate, and a signer
  that accepts every token.
\<close>

definition remote_ok :: "unit remote" where
  "remote_ok n p = (Created, p)"

definition remote_raising :: "string \<Rightarrow> unit remote" where
  "remote_raising text n p = (Raised text, p)"

definition room_registry :: "(string list) remote" where
  "room_registry n rooms =
     (if n \<in> set rooms then (Raised ''room already exists'', rooms) else (Created, n # rooms))"

definition jwt_stub :: "AccessToken \<Rightarrow> string + string" where
  "jwt_stub tok = Inr (''jwt:'' @ at_identity tok @ ''@'' @ vg_room (at_grants tok))"

definition standup_request :: TokenRequest where
  "standup_request = \<lparr>room = ''standup'', identity = ''u1'', name = None, auto_create_room = True\<rparr>"

definition fresh :: "unit world" where
  "fresh = \<lparr>platform = (), trace = []\<rparr>"

section \<open>Auxiliary facts\<close>

subsection \<open>Lower-casing and the two patterns\<close>

lemma lower_exists: "lower ''exists'' = ''exists''"
  by code_simp

lemma lower_already_exists: "lower ''already exists'' = ''already exists''"
  by code_simp

lemma sublist_lower: "sublist pat exc \<Longrightarrow> lower pat = pat \<Longrightarrow> sublist pat (lower exc)"
  using map_mono_sublist [of pat exc lower_char] by (simp add: lower_def)

lemma already_exists_imp_exists: "sublist ''already exists'' m \<Longrightarrow> sublist ''exists'' m"
proof -
  assume a: "sublist ''already exists'' m"
  have "sublist ''exists'' ''already exists''" by code_simp
  from this a show ?thesis by (rule sublist_order.order_trans)
qed

lemma is_exists_error_iff: "is_exists_error exc \<longleftrightarrow> sublist ''exists'' (lower exc)"
  by (auto simp: is_exists_error_def Let_def dest: already_exists_imp_exists)

subsection \<open>The paths of \<open>_ensure_room\<close> and \<open>_require_config\<close>\<close>

lemma ensure_room_Created:
  "remote n (platform s) = (Created, p') \<Longrightarrow>
   ensure_room remote n s = (Inr (), \<lparr>platform = p', trace = trace s @ [CreateRoomCall n]\<rparr>)"
  by (simp add: ensure_room_def lk_create_room_def)

lemma ensure_room_Raised:
  "remote n (platform s) = (Raised exc, p') \<Longrightarrow>
   ensure_room remote n s =
     (if is_exists_error exc then Inr ()
      else Inl (HTTPException 500 (''Failed to create room: '' @ exc)),
      \<lparr>platform = p', trace = trace s @ [CreateRoomCall n]\<rparr>)"
  by (simp add: ensure_room_def lk_create_room_def is_exists_error_def Let_def)

lemma ensure_room_trace:
  "ensure_room remote n s = (r, s') \<Longrightarrow> trace s' = trace s @ [CreateRoomCall n]"
  by (auto simp: ensure_room_def lk_create_room_def Let_def
           split: prod.splits remote_result.splits if_splits)

lemma require_config_Inr:
  "require_config cfg = Inr () \<longleftrightarrow>
     LIVEKIT_URL cfg \<noteq> [] \<and> LIVEKIT_API_KEY cfg \<noteq> [] \<and> LIVEKIT_API_SECRET cfg \<noteq> []"
  by (simp add: require_config_def)

lemma require_config_Inl:
  "require_config cfg = Inl e \<longleftrightarrow>
     e = HTTPException 500 config_detail \<and>
     (LIVEKIT_URL cfg = [] \<or> LIVEKIT_API_KEY cfg = [] \<or> LIVEKIT_API_SECRET cfg = [])"
  by (auto simp: require_config_def)


lemma require_config_load_config:
  "require_config (load_config env) = Inr () \<longleftrightarrow>
     env ''LIVEKIT_URL'' \<noteq> Some [] \<and> env ''LIVEKIT_API_KEY'' \<noteq> Some [] \<and>
     env ''LIVEKIT_API_SECRET'' \<noteq> Some []"
  by (auto simp: require_config_Inr load_config_def getenv_def split: option.splits)

subsection \<open>The paths of the handlers\<close>

lemma get_token_config_error:
  "require_config cfg = Inl e \<Longrightarrow> get_token to_jwt cfg remote body s = (Inl e, s)"
  by (simp add: get_token_def)

lemma create_room_config_error:
  "require_config cfg = Inl e \<Longrightarrow> create_room cfg remote body s = (Inl e, s)"
  by (simp add: create_room_def)

lemma get_token_ensure_error:
  "require_config cfg = Inr () \<Longrightarrow> auto_create_room body \<Longrightarrow>
   ensure_room remote (room body) s = (Inl e, s1) \<Longrightarrow>
   get_token to_jwt cfg remote body s = (Inl e, s1)"
  by (simp add: get_token_def)

lemma get_token_Inr:
  assumes "get_token to_jwt cfg remote body s = (Inr resp, s')"
  shows "\<exists>s1 tok. require_config cfg = Inr ()
           \<and> (if auto_create_room body then ensure_room remote (room body) s else (Inr (), s)) = (Inr (), s1)
           \<and> tok = \<lparr>api_key = LIVEKIT_API_KEY cfg, api_secret = LIVEKIT_API_SECRET cfg,
                     at_identity = identity body, at_name = name_or_identity body,
                     at_grants = \<lparr>room_join = True, vg_room = room body, can_publish = True,
                                  can_subscribe = True, can_publish_data = True\<rparr>\<rparr>
           \<and> to_jwt tok = Inr (resp_token resp)
           \<and> s' = s1\<lparr>trace := trace s1 @ [ToJwtCall tok]\<rparr>
           \<and> resp = \<lparr>resp_token = resp_token resp, resp_url = LIVEKIT_URL cfg,
                      resp_identity = identity body, resp_room = room body\<rparr>"
  using assms
  by (auto simp: get_token_def Let_def split: sum.splits prod.splits if_splits)

text \<open>
  The events one run of \<open>get_token\<close> appends to the trace, by the path it takes.
\<close>

lemma get_token_events:
  assumes "get_token to_jwt cfg remote body s = (res, s')"
  shows "\<exists>evs. trace s' = trace s @ evs \<and>
           (evs = [] \<and> require_config cfg \<noteq> Inr () \<and> s' = s
            \<or> require_config cfg = Inr () \<and>
              (let tok = \<lparr>api_key = LIVEKIT_API_KEY cfg, api_secret = LIVEKIT_API_SECRET cfg,
                     at_identity = identity body, at_name = name_or_identity body,
                     at_grants = \<lparr>room_join = True, vg_room = room body, can_publish = True,
                                  can_subscribe = True, can_publish_data = True\<rparr>\<rparr>
               in if auto_create_room body
                  then evs = [CreateRoomCall (room body)] \<and> (\<exists>e. res = Inl e)
                     \<or> evs = [CreateRoomCall (room body), ToJwtCall tok]
                  else evs = [ToJwtCall tok] \<and> platform s' = platform s))"
  using assms
  apply (cases "require_config cfg")
   apply (simp add: get_token_def)
  apply (cases "auto_create_room body")
   apply (cases "ensure_room remote (room body) s")
  subgoal for u r s1
    by (cases r) (auto simp: get_token_def Let_def dest!: ensure_room_trace split: sum.splits)
  apply (auto simp: get_token_def Let_def split: sum.splits)
  done

text \<open>The token of a response was signed by one of the calls the run added.\<close>

lemma get_token_response_signed:
  assumes run: "get_token to_jwt cfg remote body s = (Inr resp, s')"
    and ext: "trace s' = trace s @ evs"
  shows "\<exists>tok. ToJwtCall tok \<in> set evs \<and> to_jwt tok = Inr (resp_token resp)"
proof -
  from get_token_Inr [OF run] obtain s1 tok where
    e: "(if auto_create_room body then ensure_room remote (room body) s else (Inr (), s))
          = (Inr (), s1)"
    and j: "to_jwt tok = Inr (resp_token resp)"
    and s': "s' = s1\<lparr>trace := trace s1 @ [ToJwtCall tok]\<rparr>"
    by blast
  from e have "\<exists>pre. trace s1 = trace s @ pre"
    by (auto dest!: ensure_room_trace split: if_splits)
  then obtain pre where "trace s1 = trace s @ pre" ..
  with s' ext have "evs = pre @ [ToJwtCall tok]" by simp
  with j show ?thesis by auto
qed

section \<open>The claims\<close>

subsection \<open>C1: missing configuration\<close>

text \<open>
  C1 as stated fails. With none of the three environment variables set, the module
  globals take the defaults of lines 18 to 20 and \<open>_require_config\<close> passes: a token
  request that does not ask for provisioning is signed with the default key and secret,
  and \<open>create_room\<close> goes on to the remote call and returns its outcome, a success or
  the provisioning error, never the configuration error.
\<close>

theorem C1_unset_variables_counterexample:
  "get_token jwt_stub (load_config Map.empty) remote_ok
     (standup_request\<lparr>auto_create_room := False\<rparr>) fresh =
     (Inr \<lparr>resp_token = ''jwt:u1@standup'', resp_url = ''ws://localhost:7880'',
           resp_identity = ''u1'', resp_room = ''standup''\<rparr>,
      \<lparr>platform = (),
       trace = [ToJwtCall \<lparr>api_key = ''devkey'', api_secret = ''secret'', at_identity = ''u1'',
                           at_name = ''u1'',
                           at_grants = \<lparr>room_join = True, vg_room = ''standup'',
                                        can_publish = True, can_subscribe = True,
                                        can_publish_data = True\<rparr>\<rparr>]\<rparr>)
   \<and> create_room (load_config Map.empty) remote_ok \<lparr>rc_name = ''standup''\<rparr> fresh =
     (Inr \<lparr>rr_room = ''standup'', rr_created = True\<rparr>,
      \<lparr>platform = (), trace = [CreateRoomCall ''standup'']\<rparr>)
   \<and> create_room (load_config Map.empty) (remote_raising ''connection refused'')
       \<lparr>rc_name = ''standup''\<rparr> fresh =
     (Inl (HTTPException 500 ''Failed to create room: connection refused''),
      \<lparr>platform = (), trace = [CreateRoomCall ''standup'']\<rparr>)"
  by code_simp

text \<open>
  C1, amended: if any of the three configuration values is the empty string (its
  variable is set to the empty string), \<open>get_token\<close> and \<open>create_room\<close> both raise the
  HTTP 500 with the fixed detail and leave the world as it was: no remote call, no
  signing.
\<close>

theorem C1_empty_config_value:
  assumes "LIVEKIT_URL cfg = [] \<or> LIVEKIT_API_KEY cfg = [] \<or> LIVEKIT_API_SECRET cfg = []"
  shows "get_token to_jwt cfg remote body s = (Inl (HTTPException 500 config_detail), s)
       \<and> create_room cfg remote rbody s = (Inl (HTTPException 500 config_detail), s)"
proof -
  from assms have "require_config cfg = Inl (HTTPException 500 config_detail)"
    by (simp add: require_config_Inl)
  then show ?thesis
    by (simp add: get_token_config_error create_room_config_error)
qed

text \<open>The amended C1 at an environment whose secret is set to the empty string.\<close>

theorem C1_empty_config_value_witness:
  "LIVEKIT_API_SECRET (load_config (Map.empty(''LIVEKIT_API_SECRET'' \<mapsto> ''''))) = []
   \<and> get_token jwt_stub (load_config (Map.empty(''LIVEKIT_API_SECRET'' \<mapsto> ''''))) remote_ok
        standup_request fresh = (Inl (HTTPException 500 config_detail), fresh)
   \<and> create_room (load_config (Map.empty(''LIVEKIT_API_SECRET'' \<mapsto> ''''))) remote_ok
        \<lparr>rc_name = ''standup''\<rparr> fresh = (Inl (HTTPException 500 config_detail), fresh)"
proof -
  have h: "LIVEKIT_API_SECRET (load_config (Map.empty(''LIVEKIT_API_SECRET'' \<mapsto> ''''))) = []"
    by (simp add: load_config_def getenv_def)
  then have "LIVEKIT_URL (load_config (Map.empty(''LIVEKIT_API_SECRET'' \<mapsto> ''''))) = []
      \<or> LIVEKIT_API_KEY (load_config (Map.empty(''LIVEKIT_API_SECRET'' \<mapsto> ''''))) = []
      \<or> LIVEKIT_API_SECRET (load_config (Map.empty(''LIVEKIT_API_SECRET'' \<mapsto> ''''))) = []"
    by simp
  from C1_empty_config_value [OF this] h show ?thesis by simp
qed

subsection \<open>C2: classification of remote errors\<close>

text \<open>
  C2 as stated fails in its second half. The message \<open>Room EXISTS\<close> contains neither
  \<open>already exists\<close> nor \<open>exists\<close>, so it is "any other error", yet \<open>_ensure_room\<close> returns
  normally: line 64 lower-cases the message before the search.
\<close>

theorem C2_uppercase_message_counterexample:
  "\<not> sublist ''already exists'' ''Room EXISTS'' \<and> \<not> sublist ''exists'' ''Room EXISTS''
   \<and> ensure_room (remote_raising ''Room EXISTS'') ''standup'' fresh =
       (Inr (), \<lparr>platform = (), trace = [CreateRoomCall ''standup'']\<rparr>)"
  by code_simp

text \<open>
  C2, amended: when the remote call raises, \<open>_ensure_room\<close> returns normally exactly when
  the lower-cased message contains \<open>exists\<close> (so the match ignores case; a message that
  contains \<open>already exists\<close> or \<open>exists\<close> as written is such a message), and otherwise
  raises HTTP 500 whose detail is \<open>Failed to create room: \<close> followed by the message as
  raised, which aborts an enclosing \<open>get_token\<close> with that same error.
\<close>

theorem C2_ensure_room_classifies_lowercased:
  assumes "remote n (platform s) = (Raised exc, p')"
  shows "ensure_room remote n s =
           (if sublist ''exists'' (lower exc) then Inr ()
            else Inl (HTTPException 500 (''Failed to create room: '' @ exc)),
            \<lparr>platform = p', trace = trace s @ [CreateRoomCall n]\<rparr>)
       \<and> (sublist ''already exists'' exc \<or> sublist ''exists'' exc \<longrightarrow>
            ensure_room remote n s =
              (Inr (), \<lparr>platform = p', trace = trace s @ [CreateRoomCall n]\<rparr>))
       \<and> (require_config cfg = Inr () \<and> auto_create_room body \<and> room body = n
             \<and> \<not> sublist ''exists'' (lower exc) \<longrightarrow>
            get_token to_jwt cfg remote body s =
              (Inl (HTTPException 500 (''Failed to create room: '' @ exc)),
               \<lparr>platform = p', trace = trace s @ [CreateRoomCall n]\<rparr>))"
proof -
  have a: "ensure_room remote n s =
           (if sublist ''exists'' (lower exc) then Inr ()
            else Inl (HTTPException 500 (''Failed to create room: '' @ exc)),
            \<lparr>platform = p', trace = trace s @ [CreateRoomCall n]\<rparr>)"
    using ensure_room_Raised [of remote n s exc p'] assms by (simp add: is_exists_error_iff)
  have b: "sublist ''exists'' (lower exc)"
    if "sublist ''already exists'' exc \<or> sublist ''exists'' exc"
    using that already_exists_imp_exists [of exc] sublist_lower [OF _ lower_exists, of exc]
    by blast
  have c: "get_token to_jwt cfg remote body s =
                 (Inl (HTTPException 500 (''Failed to create room: '' @ exc)),
                  \<lparr>platform = p', trace = trace s @ [CreateRoomCall n]\<rparr>)"
    if "require_config cfg = Inr ()" "auto_create_room body" "room body = n"
       "\<not> sublist ''exists'' (lower exc)"
    using that a by (simp add: get_token_ensure_error)
  from a b c show ?thesis by simp
qed

text \<open>The amended C2 at a duplicate message and at an unrelated one.\<close>

theorem C2_ensure_room_classifies_lowercased_witness:
  "ensure_room (remote_raising ''room already exists'') ''standup'' fresh =
     (Inr (), \<lparr>platform = (), trace = [CreateRoomCall ''standup'']\<rparr>)
   \<and> ensure_room (remote_raising ''connection refused'') ''standup'' fresh =
     (Inl (HTTPException 500 ''Failed to create room: connection refused''),
      \<lparr>platform = (), trace = [CreateRoomCall ''standup'']\<rparr>)
   \<and> get_token jwt_stub (load_config Map.empty) (remote_raising ''connection refused'')
        standup_request fresh =
     (Inl (HTTPException 500 ''Failed to create room: connection refused''),
      \<lparr>platform = (), trace = [CreateRoomCall ''standup'']\<rparr>)"
proof -
  have r1: "remote_raising ''room already exists'' ''standup'' (platform fresh) =
              (Raised ''room already exists'', ())"
    by (simp add: remote_raising_def)
  have r2: "remote_raising ''connection refused'' ''standup'' (platform fresh) =
              (Raised ''connection refused'', ())"
    by (simp add: remote_raising_def)
  have l1: "sublist ''already exists'' ''room already exists''" by code_simp
  have l2: "\<not> sublist ''exists'' (lower ''connection refused'')" by code_simp
  have g: "require_config (load_config Map.empty) = Inr ()
           \<and> auto_create_room standup_request \<and> room standup_request = ''standup''"
    by code_simp
  have t: "trace fresh = []" by (simp add: fresh_def)
  have "ensure_room (remote_raising ''room already exists'') ''standup'' fresh =
     (Inr (), \<lparr>platform = (), trace = trace fresh @ [CreateRoomCall ''standup'']\<rparr>)"
    by (rule C2_ensure_room_classifies_lowercased
         [where remote = "remote_raising ''room already exists''" and n = "''standup''"
            and s = fresh and exc = "''room already exists''" and p' = "()", OF r1,
          THEN conjunct2, THEN conjunct1, THEN mp, OF disjI1, OF l1])
  then have w1: "ensure_room (remote_raising ''room already exists'') ''standup'' fresh =
     (Inr (), \<lparr>platform = (), trace = [CreateRoomCall ''standup'']\<rparr>)"
    by (simp only: t append_Nil)
  from C2_ensure_room_classifies_lowercased
         [where remote = "remote_raising ''connection refused''" and n = "''standup''"
            and s = fresh and exc = "''connection refused''" and p' = "()"
            and cfg = "load_config Map.empty" and body = standup_request
            and to_jwt = jwt_stub, OF r2] l2 g t
  have w2: "ensure_room (remote_raising ''connection refused'') ''standup'' fresh =
     (Inl (HTTPException 500 ''Failed to create room: connection refused''),
      \<lparr>platform = (), trace = [CreateRoomCall ''standup'']\<rparr>)
   \<and> get_token jwt_stub (load_config Map.empty) (remote_raising ''connection refused'')
        standup_request fresh =
     (Inl (HTTPException 500 ''Failed to create room: connection refused''),
      \<lparr>platform = (), trace = [CreateRoomCall ''standup'']\<rparr>)"
    by simp
  from w1 w2 show ?thesis by simp
qed

subsection \<open>C3: no credential beside a provisioning failure\<close>

text \<open>
  C3: when the remote create call raises a message that the test of lines 64 and 65 does
  not accept, \<open>get_token\<close> returns only the HTTP 500 and its trace ends with the remote
  call, so \<open>to_jwt\<close> was never reached. In general a returned response means that the room
  was ensured (when asked for) and that \<open>to_jwt\<close> produced the token of the response, and a
  returned error means that no call of \<open>to_jwt\<close> produced a token.
\<close>

theorem C3_provisioning_failure_issues_nothing:
  "(require_config cfg = Inr () \<and> auto_create_room body
       \<and> remote (room body) (platform s) = (Raised exc, p') \<and> \<not> is_exists_error exc \<longrightarrow>
    get_token to_jwt cfg remote body s =
      (Inl (HTTPException 500 (''Failed to create room: '' @ exc)),
       \<lparr>platform = p', trace = trace s @ [CreateRoomCall (room body)]\<rparr>))
   \<and> (get_token to_jwt cfg remote body s = (Inr resp, s') \<longrightarrow>
      (\<exists>s1 tok.
         (if auto_create_room body then ensure_room remote (room body) s else (Inr (), s))
           = (Inr (), s1)
         \<and> to_jwt tok = Inr (resp_token resp)
         \<and> trace s' = trace s1 @ [ToJwtCall tok]))
   \<and> (get_token to_jwt cfg remote body s = (Inl e, s') \<longrightarrow>
      \<not> (\<exists>tok jwt. ToJwtCall tok \<in> set (drop (length (trace s)) (trace s'))
            \<and> to_jwt tok = Inr jwt))"
proof -
  have a: "get_token to_jwt cfg remote body s =
           (Inl (HTTPException 500 (''Failed to create room: '' @ exc)),
            \<lparr>platform = p', trace = trace s @ [CreateRoomCall (room body)]\<rparr>)"
    if "require_config cfg = Inr ()" "auto_create_room body"
       "remote (room body) (platform s) = (Raised exc, p')" "\<not> is_exists_error exc"
    using that ensure_room_Raised [of remote "room body" s exc p']
    by (simp add: get_token_ensure_error)
  have b: "\<exists>s1 tok.
              (if auto_create_room body then ensure_room remote (room body) s else (Inr (), s))
                = (Inr (), s1)
              \<and> to_jwt tok = Inr (resp_token resp)
              \<and> trace s' = trace s1 @ [ToJwtCall tok]"
    if "get_token to_jwt cfg remote body s = (Inr resp, s')"
    using get_token_Inr [OF that] by auto
  have c: "\<not> (\<exists>tok jwt. ToJwtCall tok \<in> set (drop (length (trace s)) (trace s'))
                 \<and> to_jwt tok = Inr jwt)"
    if "get_token to_jwt cfg remote body s = (Inl e, s')"
    using that
    apply (cases "require_config cfg")
     apply (simp add: get_token_def)
    apply (cases "auto_create_room body")
     apply (cases "ensure_room remote (room body) s")
    subgoal for u r s1
      by (cases r) (auto simp: get_token_def Let_def dest!: ensure_room_trace split: sum.splits)
    apply (auto simp: get_token_def Let_def split: sum.splits)
    done
  from a b c show ?thesis by simp
qed

text \<open>C3 at a remote service that refuses the connection.\<close>

theorem C3_provisioning_failure_issues_nothing_witness:
  "require_config (load_config Map.empty) = Inr () \<and> auto_create_room standup_request
   \<and> remote_raising ''connection refused'' (room standup_request) (platform fresh) =
       (Raised ''connection refused'', ())
   \<and> \<not> is_exists_error ''connection refused''
   \<and> get_token jwt_stub (load_config Map.empty) (remote_raising ''connection refused'')
        standup_request fresh =
       (Inl (HTTPException 500 ''Failed to create room: connection refused''),
        \<lparr>platform = (), trace = [CreateRoomCall ''standup'']\<rparr>)"
proof -
  have h: "require_config (load_config Map.empty) = Inr () \<and> auto_create_room standup_request
   \<and> remote_raising ''connection refused'' (room standup_request) (platform fresh) =
       (Raised ''connection refused'', ())
   \<and> \<not> is_exists_error ''connection refused''"
    by code_simp
  have t: "trace fresh = [] \<and> room standup_request = ''standup''"
    by (simp add: fresh_def standup_request_def)
  from C3_provisioning_failure_issues_nothing
         [where cfg = "load_config Map.empty" and body = standup_request
            and remote = "remote_raising ''connection refused''" and s = fresh
            and exc = "''connection refused''" and p' = "()" and to_jwt = jwt_stub] h t
  show ?thesis by simp
qed

subsection \<open>C4: the successful response\<close>




subsection \<open>C5: the capability grant\<close>

text \<open>
  C5: every access token that a run of \<open>get_token\<close> hands to \<open>to_jwt\<close> carries the grant
  with \<open>room_join\<close>, \<open>can_publish\<close>, \<open>can_subscribe\<close> and \<open>can_publish_data\<close> all true and
  with the room of the request; the token of a response is signed from such an access
  token.
\<close>

theorem C5_grant_is_full:
  assumes "get_token to_jwt cfg remote body s = (res, s')"
  shows "\<exists>evs. trace s' = trace s @ evs
          \<and> (\<forall>tok. ToJwtCall tok \<in> set evs \<longrightarrow>
                at_grants tok = \<lparr>room_join = True, vg_room = room body, can_publish = True,
                                  can_subscribe = True, can_publish_data = True\<rparr>)
          \<and> (\<forall>resp. res = Inr resp \<longrightarrow>
                (\<exists>tok. ToJwtCall tok \<in> set evs \<and> to_jwt tok = Inr (resp_token resp)))"
proof -
  from get_token_events [OF assms] obtain evs where
    ext: "trace s' = trace s @ evs"
    and shape: "evs = [] \<and> require_config cfg \<noteq> Inr () \<and> s' = s
            \<or> require_config cfg = Inr () \<and>
              (let tok = \<lparr>api_key = LIVEKIT_API_KEY cfg, api_secret = LIVEKIT_API_SECRET cfg,
                     at_identity = identity body, at_name = name_or_identity body,
                     at_grants = \<lparr>room_join = True, vg_room = room body, can_publish = True,
                                  can_subscribe = True, can_publish_data = True\<rparr>\<rparr>
               in if auto_create_room body
                  then evs = [CreateRoomCall (room body)] \<and> (\<exists>e. res = Inl e)
                     \<or> evs = [CreateRoomCall (room body), ToJwtCall tok]
                  else evs = [ToJwtCall tok] \<and> platform s' = platform s)"
    by blast
  have grants: "at_grants tok = \<lparr>room_join = True, vg_room = room body, can_publish = True,
                                  can_subscribe = True, can_publish_data = True\<rparr>"
    if "ToJwtCall tok \<in> set evs" for tok
    using shape that by (auto simp: Let_def split: if_splits)
  have signed: "\<exists>tok. ToJwtCall tok \<in> set evs \<and> to_jwt tok = Inr (resp_token resp)"
    if "res = Inr resp" for resp
    using get_token_response_signed [of to_jwt cfg remote body s resp s' evs] assms that ext
    by simp
  from ext grants signed show ?thesis by blast
qed

text \<open>C5 at the request of the spec's example.\<close>

theorem C5_grant_is_full_witness:
  "get_token jwt_stub (load_config Map.empty) remote_ok standup_request fresh =
     (Inr \<lparr>resp_token = ''jwt:u1@standup'', resp_url = ''ws://localhost:7880'',
           resp_identity = ''u1'', resp_room = ''standup''\<rparr>,
      \<lparr>platform = (),
       trace = [CreateRoomCall ''standup'',
                ToJwtCall \<lparr>api_key = ''devkey'', api_secret = ''secret'', at_identity = ''u1'',
                           at_name = ''u1'',
                           at_grants = \<lparr>room_join = True, vg_room = ''standup'',
                                        can_publish = True, can_subscribe = True,
                                        can_publish_data = True\<rparr>\<rparr>]\<rparr>)
   \<and> (\<exists>tok. jwt_stub tok = Inr ''jwt:u1@standup''
          \<and> at_grants tok = \<lparr>room_join = True, vg_room = ''standup'', can_publish = True,
                               can_subscribe = True, can_publish_data = True\<rparr>)"
proof -
  have run: "get_token jwt_stub (load_config Map.empty) remote_ok standup_request fresh =
     (Inr \<lparr>resp_token = ''jwt:u1@standup'', resp_url = ''ws://localhost:7880'',
           resp_identity = ''u1'', resp_room = ''standup''\<rparr>,
      \<lparr>platform = (),
       trace = [CreateRoomCall ''standup'',
                ToJwtCall \<lparr>api_key = ''devkey'', api_secret = ''secret'', at_identity = ''u1'',
                           at_name = ''u1'',
                           at_grants = \<lparr>room_join = True, vg_room = ''standup'',
                                        can_publish = True, can_subscribe = True,
                                        can_publish_data = True\<rparr>\<rparr>]\<rparr>)"
    by code_simp
  have r: "room standup_request = ''standup''" by (simp add: standup_request_def)
  from C5_grant_is_full [OF run] obtain evs where
    g: "\<forall>tok. ToJwtCall tok \<in> set evs \<longrightarrow>
          at_grants tok = \<lparr>room_join = True, vg_room = room standup_request,
                            can_publish = True, can_subscribe = True,
                            can_publish_data = True\<rparr>"
    and sg: "\<forall>resp. Inr \<lparr>resp_token = ''jwt:u1@standup'', resp_url = ''ws://localhost:7880'',
                            resp_identity = ''u1'', resp_room = ''standup''\<rparr> = Inr resp \<longrightarrow>
              (\<exists>tok. ToJwtCall tok \<in> set evs \<and> jwt_stub tok = Inr (resp_token resp))"
    by blast
  from sg obtain tok where
    "ToJwtCall tok \<in> set evs" and j: "jwt_stub tok = Inr ''jwt:u1@standup''"
    by fastforce
  with g r have "at_grants tok = \<lparr>room_join = True, vg_room = ''standup'', can_publish = True,
                               can_subscribe = True, can_publish_data = True\<rparr>"
    by simp
  with j run show ?thesis by blast
qed

subsection \<open>C6: required fields\<close>




subsection \<open>C7: the auto-provision flag\<close>



subsection \<open>C8: idempotence of \<open>_ensure_room\<close>\<close>

text \<open>
  C8: on a remote service where creating an absent room succeeds and leaves it present,
  and creating a present room raises a message containing \<open>already exists\<close> (in any
  letter case) and leaves it present, two \<open>_ensure_room\<close> calls in succession with the same
  name both return normally.
\<close>

theorem C8_ensure_room_twice:
  fixes present :: "'p \<Rightarrow> string \<Rightarrow> bool"
  assumes new: "\<forall>p. \<not> present p n \<longrightarrow> (\<exists>p'. remote n p = (Created, p') \<and> present p' n)"
    and dup: "\<forall>p. present p n \<longrightarrow>
                (\<exists>exc p'. remote n p = (Raised exc, p') \<and> present p' n
                   \<and> sublist ''already exists'' (lower exc))"
  shows "fst (ensure_room remote n s) = Inr ()
       \<and> fst (ensure_room remote n (snd (ensure_room remote n s))) = Inr ()
       \<and> present (platform (snd (ensure_room remote n s))) n"
proof -
  have once: "fst (ensure_room remote n t) = Inr ()
                \<and> present (platform (snd (ensure_room remote n t))) n" for t
  proof (cases "present (platform t) n")
    case True
    with dup obtain exc p' where
      r: "remote n (platform t) = (Raised exc, p')" and p: "present p' n"
      and m: "sublist ''already exists'' (lower exc)"
      by blast
    from m have "is_exists_error exc"
      by (simp add: is_exists_error_def Let_def)
    with ensure_room_Raised [of remote n t exc p'] r p show ?thesis by simp
  next
    case False
    with new obtain p' where
      r: "remote n (platform t) = (Created, p')" and p: "present p' n"
      by blast
    with ensure_room_Created [of remote n t p'] show ?thesis by simp
  qed
  from once [of s] once [of "snd (ensure_room remote n s)"] show ?thesis by simp
qed

text \<open>The registry of room names meets the two conditions of C8.\<close>

lemma room_registry_present:
  "\<forall>p. \<not> n \<in> set p \<longrightarrow> (\<exists>p'. room_registry n p = (Created, p') \<and> n \<in> set p')"
  "\<forall>p. n \<in> set p \<longrightarrow>
     (\<exists>exc p'. room_registry n p = (Raised exc, p') \<and> n \<in> set p'
        \<and> sublist ''already exists'' (lower exc))"
proof -
  show "\<forall>p. \<not> n \<in> set p \<longrightarrow> (\<exists>p'. room_registry n p = (Created, p') \<and> n \<in> set p')"
    by (simp add: room_registry_def)
  have "sublist ''already exists'' (lower ''room already exists'')" by code_simp
  then show "\<forall>p. n \<in> set p \<longrightarrow>
     (\<exists>exc p'. room_registry n p = (Raised exc, p') \<and> n \<in> set p'
        \<and> sublist ''already exists'' (lower exc))"
    by (simp add: room_registry_def)
qed

text \<open>C8 on the registry of room names, starting without the room.\<close>

theorem C8_ensure_room_twice_witness:
  "fst (ensure_room room_registry ''standup'' \<lparr>platform = [], trace = []\<rparr>) = Inr ()
   \<and> fst (ensure_room room_registry ''standup''
            (snd (ensure_room room_registry ''standup'' \<lparr>platform = [], trace = []\<rparr>))) = Inr ()
   \<and> snd (ensure_room room_registry ''standup''
            (snd (ensure_room room_registry ''standup'' \<lparr>platform = [], trace = []\<rparr>))) =
       \<lparr>platform = [''standup''],
        trace = [CreateRoomCall ''standup'', CreateRoomCall ''standup'']\<rparr>"
proof -
  have st: "snd (ensure_room room_registry ''standup''
            (snd (ensure_room room_registry ''standup'' \<lparr>platform = [], trace = []\<rparr>))) =
       \<lparr>platform = [''standup''],
        trace = [CreateRoomCall ''standup'', CreateRoomCall ''standup'']\<rparr>"
    by code_simp
  from C8_ensure_room_twice
         [where present = "\<lambda>p n. n \<in> set p" and remote = room_registry and n = "''standup''"
            and s = "\<lparr>platform = [], trace = []\<rparr>",
          OF room_registry_present(1) room_registry_present(2)] st
  show ?thesis by blast
qed

subsection \<open>C9: the response of \<open>create_room\<close>\<close>

text \<open>
  C9: every response of \<open>create_room\<close> is the requested name with \<open>created\<close> true; under a
  valid configuration that is the response both when the remote call created the room
  and when it raised an accepted "exists" message, so nothing was created.
\<close>

theorem C9_created_always_true:
  "(create_room cfg remote body s = (Inr resp, s') \<longrightarrow>
      resp = \<lparr>rr_room = rc_name body, rr_created = True\<rparr>)
   \<and> (require_config cfg = Inr () \<and> remote (rc_name body) (platform s) = (Created, p') \<longrightarrow>
      create_room cfg remote body s =
        (Inr \<lparr>rr_room = rc_name body, rr_created = True\<rparr>,
         \<lparr>platform = p', trace = trace s @ [CreateRoomCall (rc_name body)]\<rparr>))
   \<and> (require_config cfg = Inr () \<and> remote (rc_name body) (platform s) = (Raised exc, p')
        \<and> is_exists_error exc \<longrightarrow>
      create_room cfg remote body s =
        (Inr \<lparr>rr_room = rc_name body, rr_created = True\<rparr>,
         \<lparr>platform = p', trace = trace s @ [CreateRoomCall (rc_name body)]\<rparr>))"
proof -
  have a: "resp = \<lparr>rr_room = rc_name body, rr_created = True\<rparr>"
    if "create_room cfg remote body s = (Inr resp, s')"
  proof (cases "require_config cfg")
    case (Inl e)
    with that show ?thesis by (simp add: create_room_def)
  next
    case (Inr u)
    obtain r s1 where e: "ensure_room remote (rc_name body) s = (r, s1)"
      by (cases "ensure_room remote (rc_name body) s")
    from that Inr e show ?thesis
      by (cases r) (simp_all add: create_room_def)
  qed
  have b: "create_room cfg remote body s =
        (Inr \<lparr>rr_room = rc_name body, rr_created = True\<rparr>,
         \<lparr>platform = p', trace = trace s @ [CreateRoomCall (rc_name body)]\<rparr>)"
    if "require_config cfg = Inr ()" "remote (rc_name body) (platform s) = (Created, p')"
    using that ensure_room_Created [of remote "rc_name body" s p']
    by (simp add: create_room_def)
  have c: "create_room cfg remote body s =
        (Inr \<lparr>rr_room = rc_name body, rr_created = True\<rparr>,
         \<lparr>platform = p', trace = trace s @ [CreateRoomCall (rc_name body)]\<rparr>)"
    if "require_config cfg = Inr ()" "remote (rc_name body) (platform s) = (Raised exc, p')"
       "is_exists_error exc"
    using that ensure_room_Raised [of remote "rc_name body" s exc p']
    by (simp add: create_room_def)
  show ?thesis
  proof (intro conjI impI)
    assume "create_room cfg remote body s = (Inr resp, s')"
    then show "resp = \<lparr>rr_room = rc_name body, rr_created = True\<rparr>" by (rule a)
  next
    assume "require_config cfg = Inr () \<and> remote (rc_name body) (platform s) = (Created, p')"
    then show "create_room cfg remote body s =
        (Inr \<lparr>rr_room = rc_name body, rr_created = True\<rparr>,
         \<lparr>platform = p', trace = trace s @ [CreateRoomCall (rc_name body)]\<rparr>)"
      by (elim conjE) (rule b)
  next
    assume "require_config cfg = Inr () \<and> remote (rc_name body) (platform s) = (Raised exc, p')
        \<and> is_exists_error exc"
    then show "create_room cfg remote body s =
        (Inr \<lparr>rr_room = rc_name body, rr_created = True\<rparr>,
         \<lparr>platform = p', trace = trace s @ [CreateRoomCall (rc_name body)]\<rparr>)"
      by (elim conjE) (rule c)
  qed
qed

text \<open>C9 on the registry of room names, with the room already there.\<close>

theorem C9_created_always_true_witness:
  "create_room (load_config Map.empty) room_registry \<lparr>rc_name = ''standup''\<rparr>
     \<lparr>platform = [''standup''], trace = []\<rparr> =
   (Inr \<lparr>rr_room = ''standup'', rr_created = True\<rparr>,
    \<lparr>platform = [''standup''], trace = [CreateRoomCall ''standup'']\<rparr>)"
proof -
  have h: "require_config (load_config Map.empty) = Inr ()
      \<and> room_registry (rc_name \<lparr>rc_name = ''standup''\<rparr>)
            (platform \<lparr>platform = [''standup''], trace = []\<rparr>)
          = (Raised ''room already exists'', [''standup''])
      \<and> is_exists_error ''room already exists''"
    by code_simp
  from C9_created_always_true
         [where cfg = "load_config Map.empty" and remote = room_registry
            and body = "\<lparr>rc_name = ''standup''\<rparr>"
            and s = "\<lparr>platform = [''standup''], trace = []\<rparr>"
            and exc = "''room already exists''" and p' = "[''standup'']",
          THEN conjunct2, THEN conjunct2, THEN mp, OF h]
  show ?thesis by simp
qed

subsection \<open>C10: the display name\<close>

text \<open>
  C10: every access token that a run of \<open>get_token\<close> hands to \<open>to_jwt\<close> has as its name the
  identity of the request when the request's name is absent or the empty string, and
  the request's name when that is a non-empty string.
\<close>

theorem C10_display_name_fallback:
  assumes "get_token to_jwt cfg remote body s = (res, s')"
  shows "\<exists>evs. trace s' = trace s @ evs
          \<and> (\<forall>tok. ToJwtCall tok \<in> set evs \<longrightarrow>
                (name body = None \<or> name body = Some [] \<longrightarrow> at_name tok = identity body)
                \<and> (\<forall>n. name body = Some n \<and> n \<noteq> [] \<longrightarrow> at_name tok = n))
          \<and> (\<forall>resp. res = Inr resp \<longrightarrow>
                (\<exists>tok. ToJwtCall tok \<in> set evs \<and> to_jwt tok = Inr (resp_token resp)))"
proof -
  from get_token_events [OF assms] obtain evs where
    ext: "trace s' = trace s @ evs"
    and shape: "evs = [] \<and> require_config cfg \<noteq> Inr () \<and> s' = s
            \<or> require_config cfg = Inr () \<and>
              (let tok = \<lparr>api_key = LIVEKIT_API_KEY cfg, api_secret = LIVEKIT_API_SECRET cfg,
                     at_identity = identity body, at_name = name_or_identity body,
                     at_grants = \<lparr>room_join = True, vg_room = room body, can_publish = True,
                                  can_subscribe = True, can_publish_data = True\<rparr>\<rparr>
               in if auto_create_room body
                  then evs = [CreateRoomCall (room body)] \<and> (\<exists>e. res = Inl e)
                     \<or> evs = [CreateRoomCall (room body), ToJwtCall tok]
                  else evs = [ToJwtCall tok] \<and> platform s' = platform s)"
    by blast
  have nm: "at_name tok = name_or_identity body" if "ToJwtCall tok \<in> set evs" for tok
    using shape that by (auto simp: Let_def split: if_splits)
  have names: "(name body = None \<or> name body = Some [] \<longrightarrow> at_name tok = identity body)
                \<and> (\<forall>n. name body = Some n \<and> n \<noteq> [] \<longrightarrow> at_name tok = n)"
    if "ToJwtCall tok \<in> set evs" for tok
    using nm [OF that] by (auto simp: name_or_identity_def)
  have signed: "\<exists>tok. ToJwtCall tok \<in> set evs \<and> to_jwt tok = Inr (resp_token resp)"
    if "res = Inr resp" for resp
    using get_token_response_signed [of to_jwt cfg remote body s resp s' evs] assms that ext
    by simp
  from ext names signed show ?thesis by blast
qed

text \<open>C10 at requests with the name omitted, empty and given.\<close>

theorem C10_display_name_fallback_witness:
  "(\<exists>tok. jwt_stub tok = Inr ''jwt:u1@standup'' \<and> at_name tok = ''u1'')
   \<and> get_token jwt_stub (load_config Map.empty) remote_ok
       (standup_request\<lparr>name := Some ''''\<rparr>) fresh =
     (Inr \<lparr>resp_token = ''jwt:u1@standup'', resp_url = ''ws://localhost:7880'',
           resp_identity = ''u1'', resp_room = ''standup''\<rparr>,
      \<lparr>platform = (),
       trace = [CreateRoomCall ''standup'',
                ToJwtCall \<lparr>api_key = ''devkey'', api_secret = ''secret'', at_identity = ''u1'',
                           at_name = ''u1'',
                           at_grants = \<lparr>room_join = True, vg_room = ''standup'',
                                        can_publish = True, can_subscribe = True,
                                        can_publish_data = True\<rparr>\<rparr>]\<rparr>)
   \<and> get_token jwt_stub (load_config Map.empty) remote_ok
       (standup_request\<lparr>name := Some ''Ada''\<rparr>) fresh =
     (Inr \<lparr>resp_token = ''jwt:u1@standup'', resp_url = ''ws://localhost:7880'',
           resp_identity = ''u1'', resp_room = ''standup''\<rparr>,
      \<lparr>platform = (),
       trace = [CreateRoomCall ''standup'',
                ToJwtCall \<lparr>api_key = ''devkey'', api_secret = ''secret'', at_identity = ''u1'',
                           at_name = ''Ada'',
                           at_grants = \<lparr>room_join = True, vg_room = ''standup'',
                                        can_publish = True, can_subscribe = True,
                                        can_publish_data = True\<rparr>\<rparr>]\<rparr>)"
proof -
  have run: "get_token jwt_stub (load_config Map.empty) remote_ok
       (standup_request\<lparr>name := Some ''''\<rparr>) fresh =
     (Inr \<lparr>resp_token = ''jwt:u1@standup'', resp_url = ''ws://localhost:7880'',
           resp_identity = ''u1'', resp_room = ''standup''\<rparr>,
      \<lparr>platform = (),
       trace = [CreateRoomCall ''standup'',
                ToJwtCall \<lparr>api_key = ''devkey'', api_secret = ''secret'', at_identity = ''u1'',
                           at_name = ''u1'',
                           at_grants = \<lparr>room_join = True, vg_room = ''standup'',
                                        can_publish = True, can_subscribe = True,
                                        can_publish_data = True\<rparr>\<rparr>]\<rparr>)"
    by code_simp
  have given: "get_token jwt_stub (load_config Map.empty) remote_ok
       (standup_request\<lparr>name := Some ''Ada''\<rparr>) fresh =
     (Inr \<lparr>resp_token = ''jwt:u1@standup'', resp_url = ''ws://localhost:7880'',
           resp_identity = ''u1'', resp_room = ''standup''\<rparr>,
      \<lparr>platform = (),
       trace = [CreateRoomCall ''standup'',
                ToJwtCall \<lparr>api_key = ''devkey'', api_secret = ''secret'', at_identity = ''u1'',
                           at_name = ''Ada'',
                           at_grants = \<lparr>room_join = True, vg_room = ''standup'',
                                        can_publish = True, can_subscribe = True,
                                        can_publish_data = True\<rparr>\<rparr>]\<rparr>)"
    by code_simp
  have b: "name (standup_request\<lparr>name := Some ''''\<rparr>) = Some []
           \<and> identity (standup_request\<lparr>name := Some ''''\<rparr>) = ''u1''"
    by (simp add: standup_request_def)
  from C10_display_name_fallback [OF run] obtain evs where
    n: "\<forall>tok. ToJwtCall tok \<in> set evs \<longrightarrow>
          (name (standup_request\<lparr>name := Some ''''\<rparr>) = None
             \<or> name (standup_request\<lparr>name := Some ''''\<rparr>) = Some [] \<longrightarrow>
           at_name tok = identity (standup_request\<lparr>name := Some ''''\<rparr>))
          \<and> (\<forall>n. name (standup_request\<lparr>name := Some ''''\<rparr>) = Some n \<and> n \<noteq> [] \<longrightarrow>
                at_name tok = n)"
    and sg: "\<forall>resp. Inr \<lparr>resp_token = ''jwt:u1@standup'', resp_url = ''ws://localhost:7880'',
                            resp_identity = ''u1'', resp_room = ''standup''\<rparr> = Inr resp \<longrightarrow>
              (\<exists>tok. ToJwtCall tok \<in> set evs \<and> jwt_stub tok = Inr (resp_token resp))"
    by blast
  from sg obtain tok where
    t: "ToJwtCall tok \<in> set evs" and j: "jwt_stub tok = Inr ''jwt:u1@standup''"
    by fastforce
  from n t b have "at_name tok = ''u1''" by metis
  with j run given show ?thesis by blast
qed

end
